theory Spec2Isabelle
  imports Complex_Main "HOL-Library.Word" "HOL-Library.AList"
begin

section \<open>JavaScript numbers\<close>

text \<open>
  The bot is JavaScript. A JavaScript number is modelled as an exact rational
  (\<open>Num\<close>) or as \<open>NaN\<close>; rounding of IEEE doubles and the infinities are not
  modelled, so every arithmetic statement below is about the exact value of the
  expression the source evaluates. A string is the list of its characters for the
  ASCII keywords the code compares (\<open>''LONG''\<close>, \<open>''sell''\<close>, \<open>''Open''\<close>).
\<close>

datatype jsnum = Num rat | NaN



text \<open>
  \<open>v || d\<close> on an object field that holds a number or is missing: the default \<open>d\<close>
  replaces a missing field (\<open>None\<close>) and the falsy number \<open>0\<close>.
\<close>

definition js_or :: "rat option \<Rightarrow> rat \<Rightarrow> rat" where
  "js_or v d = (case v of None \<Rightarrow> d | Some x \<Rightarrow> if x = 0 then d else x)"


section \<open>Risk sizing (\<open>services/risk.service.js\<close>)\<close>



text \<open>
  The contract description \<open>getSymbolInfo\<close> returns (\<open>services/kucoin.service.js\<close>);
  the sizing function reads its numeric fields through \<open>||\<close> defaults, the admission
  pipeline reads \<open>status\<close>.
\<close>

record symbolInfo =
  multiplier :: "rat option"
  lotSize :: "rat option"
  minOrderQty :: "rat option"
  maxOrderQty :: "rat option"
  status :: string






section \<open>Position ledger (\<open>services/position.service.js\<close>)\<close>

text \<open>
  A tracked position, as \<open>addOpenPosition\<close> stores it, and a closed one, as
  \<open>handlePositionClosed\<close> builds it (\<open>{...trackedPosition, exitPrice, pnl, pnlPercent,
  duration}\<close>, to which \<open>addClosedPosition\<close> adds \<open>closedAt\<close>). Time stamps are
  milliseconds; \<open>duration\<close> holds the whole seconds that \<open>formatDuration\<close> (of
  \<open>utils/helpers.js\<close>, not among the sources) would render as text.
\<close>

record position =
  symbol :: string
  direction :: string
  entryPrice :: rat
  quantity :: rat
  orderId :: string
  timestamp :: int
  positionSizeUSDT :: rat

record closed_position = position +
  exitPrice :: rat
  pnl :: rat
  pnlPercent :: rat
  duration :: int
  closedAt :: int

text \<open>The argument of \<open>addOpenPosition\<close>: \<open>timestamp\<close> and \<open>positionSizeUSDT\<close> may be missing.\<close>

record position_data =
  pd_symbol :: string
  pd_direction :: string
  pd_entryPrice :: rat
  pd_quantity :: rat
  pd_orderId :: string
  pd_timestamp :: "int option"
  pd_positionSizeUSDT :: "rat option"

text \<open>
  The calls of \<open>logger\<close>, by level and message template (interpolated values left out).
\<close>

datatype log_level = LogInfo | LogWarn | LogError | LogDebug

type_synonym log_entry = "log_level \<times> string"

text \<open>
  The service's state. \<open>openPositions\<close> is a JavaScript \<open>Map\<close>: an association list in
  insertion order, on which \<open>Map.set\<close> is \<open>AList.update\<close> (replace the value in place, or
  append a new entry), \<open>Map.delete\<close> is \<open>AList.delete\<close> and \<open>Map.get\<close> is \<open>map_of\<close>.
  \<open>logged\<close> collects the logger calls in order. The timer handle
  \<open>monitoringInterval\<close> is not modelled.
\<close>

record ledger =
  openPositions :: "(string \<times> position) list"
  closedPositions :: "closed_position list"
  logged :: "log_entry list"

definition new_ledger :: ledger where
  "new_ledger = \<lparr> openPositions = [], closedPositions = [], logged = [] \<rparr>"

text \<open>\<open>timestamp || Date.now()\<close>: a missing or zero time stamp is replaced by the clock.\<close>

definition js_or_now :: "int option \<Rightarrow> int \<Rightarrow> int" where
  "js_or_now v now = (case v of None \<Rightarrow> now | Some t \<Rightarrow> if t = 0 then now else t)"

definition addOpenPosition :: "int \<Rightarrow> position_data \<Rightarrow> ledger \<Rightarrow> ledger" where
  "addOpenPosition now pd L =
     L \<lparr> openPositions :=
           AList.update (pd_symbol pd)
             \<lparr> symbol = pd_symbol pd,
               direction = pd_direction pd,
               entryPrice = pd_entryPrice pd,
               quantity = pd_quantity pd,
               orderId = pd_orderId pd,
               timestamp = js_or_now (pd_timestamp pd) now,
               positionSizeUSDT = js_or (pd_positionSizeUSDT pd) 0 \<rparr>
             (openPositions L),
         logged := logged L @ [(LogInfo, ''[POSITION] Added position to monitoring'')] \<rparr>"

definition removeOpenPosition :: "string \<Rightarrow> ledger \<Rightarrow> position option \<times> ledger" where
  "removeOpenPosition smb L =
     (case map_of (openPositions L) smb of
        Some p \<Rightarrow>
          (Some p,
           L \<lparr> openPositions := AList.delete smb (openPositions L),
               logged := logged L @ [(LogInfo, ''[POSITION] Removed position from monitoring'')] \<rparr>)
      | None \<Rightarrow> (None, L))"

definition addClosedPosition :: "int \<Rightarrow> closed_position \<Rightarrow> ledger \<Rightarrow> ledger" where
  "addClosedPosition now cp L =
     L \<lparr> closedPositions := closedPositions L @ [cp \<lparr> closedAt := now \<rparr>],
         logged := logged L @ [(LogInfo, ''[POSITION] Position closed'')] \<rparr>"

definition hasOpenPosition :: "string \<Rightarrow> ledger \<Rightarrow> bool" where
  "hasOpenPosition smb L = (smb \<in> set (map fst (openPositions L)))"

definition getOpenPosition :: "string \<Rightarrow> ledger \<Rightarrow> position option" where
  "getOpenPosition smb L = map_of (openPositions L) smb"

definition getAllOpenPositions :: "ledger \<Rightarrow> position list" where
  "getAllOpenPositions L = map snd (openPositions L)"

definition getOpenPositionsCount :: "ledger \<Rightarrow> nat" where
  "getOpenPositionsCount L = length (openPositions L)"

definition resetDailyStatistics :: "ledger \<Rightarrow> ledger" where
  "resetDailyStatistics L =
     L \<lparr> closedPositions := [],
         logged := logged L @ [(LogInfo, ''[POSITION] Daily statistics reset'')] \<rparr>"

text \<open>The number of entries the map holds for a symbol, and the map's own invariant.\<close>

definition entries_for :: "string \<Rightarrow> ledger \<Rightarrow> nat" where
  "entries_for smb L = length (filter (\<lambda>e. fst e = smb) (openPositions L))"

definition one_entry_per_symbol :: "ledger \<Rightarrow> bool" where
  "one_entry_per_symbol L = distinct (map fst (openPositions L))"


section \<open>Reconciliation (\<open>checkPositions\<close>, \<open>handlePositionClosed\<close>)\<close>

text \<open>
  What the venue client returns: a fill of the trade history with the number
  \<open>parseFloat(t.price || t.execPrice)\<close>, and a live position with the number
  \<open>parseFloat(pos.size)\<close>. A rejected promise is \<open>Inl\<close> of the error message.
\<close>

record trade =
  t_symbol :: string
  t_side :: string
  t_price :: rat

record exchange_position =
  ep_symbol :: string
  ep_size :: rat

text \<open>
  \<open>calculatePnL\<close> and \<open>calculatePnLPercent\<close> are imported from \<open>utils/helpers.js\<close>, which
  is not among the sources: the reconciliation code takes them as parameters.
\<close>

record pnl_helpers =
  calculatePnL :: "rat \<Rightarrow> rat \<Rightarrow> rat \<Rightarrow> string \<Rightarrow> rat"
  calculatePnLPercent :: "rat \<Rightarrow> rat \<Rightarrow> string \<Rightarrow> rat"

text \<open>
  Modelled from the spec: the helpers \<open>calculatePnL(entry, exit, quantity, direction)\<close>
  and \<open>calculatePnLPercent(entry, exit, direction)\<close> of \<open>utils/helpers.js\<close> are missing.
  The spec asks for the realized pnl and pnl percent of a closed position and says
  that equal entry and exit prices yield zero; the direction-signed price difference
  is used: times the quantity, and as a percentage of the entry price.
\<close>

definition spec_calculatePnL :: "rat \<Rightarrow> rat \<Rightarrow> rat \<Rightarrow> string \<Rightarrow> rat" where
  "spec_calculatePnL entry exit qty dir =
     (if dir = ''LONG'' then (exit - entry) * qty else (entry - exit) * qty)"

text \<open>
  Modelled from the spec: \<open>calculatePnLPercent\<close> of \<open>utils/helpers.js\<close> is missing; the
  direction-signed price difference as a percentage of the entry price.
\<close>

definition spec_calculatePnLPercent :: "rat \<Rightarrow> rat \<Rightarrow> string \<Rightarrow> rat" where
  "spec_calculatePnLPercent entry exit dir =
     (if dir = ''LONG'' then (exit - entry) / entry * 100 else (entry - exit) / entry * 100)"

text \<open>
  Modelled from the spec: the pair of the two helpers above, standing for the missing
  exports of \<open>utils/helpers.js\<close>.
\<close>

definition spec_pnl_helpers :: pnl_helpers where
  "spec_pnl_helpers =
     \<lparr> calculatePnL = spec_calculatePnL, calculatePnLPercent = spec_calculatePnLPercent \<rparr>"

text \<open>The predicate of \<open>trades.find\<close>: a fill on the closing side of the tracked direction.\<close>

definition is_close_trade :: "string \<Rightarrow> position \<Rightarrow> trade \<Rightarrow> bool" where
  "is_close_trade smb tracked t =
     (t_symbol t = smb \<and>
      (t_side t = ''sell'' \<and> direction tracked = ''LONG'' \<or>
       t_side t = ''buy'' \<and> direction tracked = ''SHORT''))"

definition handlePositionClosed ::
  "pnl_helpers \<Rightarrow> int \<Rightarrow> (string + trade list) \<Rightarrow> string \<Rightarrow> position \<Rightarrow> ledger \<Rightarrow> ledger"
where
  "handlePositionClosed h now tradeHistory smb tracked L =
     (case tradeHistory of
        Inl err \<Rightarrow>
          L \<lparr> logged := logged L @ [(LogError, ''[POSITION] Error handling closed position'')] \<rparr>
      | Inr trades \<Rightarrow>
          let closeTrade = find (is_close_trade smb tracked) trades;
              exitP = (case closeTrade of Some t \<Rightarrow> t_price t | None \<Rightarrow> entryPrice tracked);
              dur = \<lfloor>of_int (now - timestamp tracked) / (1000 :: rat)\<rfloor>;
              pnlV = calculatePnL h (entryPrice tracked) exitP (quantity tracked) (direction tracked);
              pnlPct = calculatePnLPercent h (entryPrice tracked) exitP (direction tracked);
              closedPositionData =
                position.extend tracked
                  (closed_position.fields exitP pnlV pnlPct dur 0);
              L1 = addClosedPosition now closedPositionData L;
              L2 = snd (removeOpenPosition smb L1)
          in L2 \<lparr> logged := logged L2 @ [(LogInfo, ''[POSITION] Position closed'')] \<rparr>)"

definition updatePositionData :: "string \<Rightarrow> exchange_position \<Rightarrow> ledger \<Rightarrow> ledger" where
  "updatePositionData smb ep L =
     (case map_of (openPositions L) smb of
        None \<Rightarrow> L
      | Some tracked \<Rightarrow> L \<lparr> logged := logged L @ [(LogDebug, ''[POSITION] Unrealised P&L'')] \<rparr>)"

text \<open>
  The venue as the reconciliation tick sees it: the answers of
  \<open>kucoinService.getOpenPositions(symbol)\<close> and \<open>kucoinService.getTradeHistory(symbol)\<close>.
\<close>

record venue_positions =
  getOpenPositions :: "string \<Rightarrow> string + exchange_position list"
  getTradeHistory :: "string \<Rightarrow> string + trade list"

text \<open>The body of the \<open>for\<close> loop of \<open>checkPositions\<close>, for one tracked entry.\<close>

definition checkPosition ::
  "pnl_helpers \<Rightarrow> int \<Rightarrow> venue_positions \<Rightarrow> string \<times> position \<Rightarrow> ledger \<Rightarrow> ledger"
where
  "checkPosition h now venue entry L =
     (let smb = fst entry; trackedPosition = snd entry in
      case getOpenPositions venue smb of
        Inl err \<Rightarrow> L \<lparr> logged := logged L @ [(LogError, ''[POSITION] Error checking position'')] \<rparr>
      | Inr exchangePositions \<Rightarrow>
          (case find (\<lambda>pos. ep_symbol pos = smb) exchangePositions of
             None \<Rightarrow> handlePositionClosed h now (getTradeHistory venue smb) smb trackedPosition L
           | Some exchangePosition \<Rightarrow>
               if ep_size exchangePosition = 0
               then handlePositionClosed h now (getTradeHistory venue smb) smb trackedPosition L
               else updatePositionData smb exchangePosition L))"

text \<open>
  \<open>checkPositions\<close>: the loop over the entries of the map. A step removes at most the
  entry it is visiting, so the live iteration visits the entries the map held at the
  start, in order.
\<close>

definition checkPositions :: "pnl_helpers \<Rightarrow> int \<Rightarrow> venue_positions \<Rightarrow> ledger \<Rightarrow> ledger" where
  "checkPositions h now venue L =
     (if length (openPositions L) = 0 then L
      else fold (checkPosition h now venue) (openPositions L) L)"


section \<open>Orchestrator (\<open>index.js\<close>, the second module of \<open>config/settings.js\<close>)\<close>

text \<open>The module's \<open>statistics\<close> object.\<close>

record statistics =
  totalTrades :: int
  winTrades :: int
  loseTrades :: int
  totalProfit :: rat
  startBalance :: rat
  currentBalance :: rat
  dailyTrades :: int
  signalsIgnored :: int
  totalSignals :: int
  lastResetDate :: string

text \<open>
  The daily rollover at the head of \<open>sendDailyReport\<close>; \<open>currentDate\<close> is the value of
  \<open>getCurrentDate()\<close>. The report that the function then builds and sends changes
  neither the statistics nor the ledger and is not modelled.
\<close>

definition sendDailyReport :: "string \<Rightarrow> statistics \<times> ledger \<Rightarrow> statistics \<times> ledger" where
  "sendDailyReport currentDate st =
     (if currentDate \<noteq> lastResetDate (fst st)
      then ((fst st) \<lparr> dailyTrades := 0, signalsIgnored := 0, lastResetDate := currentDate \<rparr>,
            resetDailyStatistics (snd st))
      else st)"

text \<open>
  An OPEN signal as \<open>validateSignal\<close> reads it. \<open>spread\<close> is \<open>null\<close> (\<open>None\<close>) when the
  parser found no spread label, and the number \<open>parseFloat\<close> returned otherwise.
\<close>

record signal =
  sig_type :: string
  sig_symbol :: string
  sig_direction :: string
  sig_lastPrice :: jsnum
  sig_fairPrice :: jsnum
  sig_spread :: "jsnum option"
  sig_emoji :: "16 word list"

text \<open>
  The options of \<open>config\<close> the admission gates read. \<open>minSpreadPercent\<close> and
  \<open>blockedSymbols\<close> are used by \<open>index.js\<close> but are not declared in the
  \<open>settings.js\<close> among the sources.
\<close>

record admission_config =
  minSpreadPercent :: rat
  blockedSymbols :: "string list"
  maxOpenPositions :: int
  maxDailyTrades :: int

text \<open>
  What the gates read from outside the process: the value of \<open>isTradingHoursActive()\<close>
  (\<open>services/time.service.js\<close> is not among the sources), and the answers the venue
  would give to \<open>getUSDTBalance()\<close> and \<open>getSymbolInfo(symbol)\<close>, with \<open>Inl\<close> the message of
  a thrown error.
\<close>

record gate_env =
  tradingHoursActive :: bool
  getUSDTBalance :: "string + rat"
  getSymbolInfo :: "string \<Rightarrow> string + symbolInfo"

text \<open>
  Modelled from the spec: \<open>isSymbolBlocked\<close> of \<open>utils/helpers.js\<close> is missing; the gate
  is "symbol not in the blocked-symbol set".
\<close>

definition isSymbolBlocked :: "string \<Rightarrow> string list \<Rightarrow> bool" where
  "isSymbolBlocked smb blocked = (smb \<in> set blocked)"

text \<open>\<open>!spread\<close>: \<open>null\<close>, \<open>NaN\<close> and \<open>0\<close> are falsy. \<open>spread < m\<close> is false on \<open>NaN\<close>.\<close>

fun js_not :: "jsnum option \<Rightarrow> bool" where
  "js_not None = True"
| "js_not (Some NaN) = True"
| "js_not (Some (Num x)) = (x = 0)"

fun js_less :: "jsnum option \<Rightarrow> rat \<Rightarrow> bool" where
  "js_less (Some (Num x)) m = (x < m)"
| "js_less (Some NaN) m = False"
| "js_less None m = (0 < m)"

text \<open>
  The verdict of \<open>validateSignal\<close>: \<open>{valid: true}\<close>, or \<open>{valid: false, reason, info}\<close> with
  the reason by its message template (the formatted \<open>info\<close> is left out).
\<close>

datatype rejection =
    SpreadBelowMinimum
  | SymbolIsBlocked
  | InvalidSignalDirection
  | OutsideTradingHours
  | OpenPositionExists
  | MaxOpenPositionsReached
  | MaxDailyTradesReached
  | InsufficientFunds
  | ErrorCheckingBalance string
  | SymbolNotTrading
  | SymbolNotFoundOrError string

datatype validation = Valid | Rejected rejection

text \<open>The network calls a run of \<open>validateSignal\<close> makes, in order.\<close>

datatype net_call = CallGetUSDTBalance | CallGetSymbolInfo string

text \<open>
  \<open>validateSignal(signal)\<close>: the verdict, the network calls made and the statistics
  (gate 8 stores the fetched balance in \<open>statistics.currentBalance\<close>).
\<close>

definition validateSignal ::
  "admission_config \<Rightarrow> gate_env \<Rightarrow> statistics \<Rightarrow> ledger \<Rightarrow> signal
     \<Rightarrow> validation \<times> net_call list \<times> statistics"
where
  "validateSignal cfg env st L sg =
     (let smb = sig_symbol sg; dir = sig_direction sg; spread = sig_spread sg in
      if minSpreadPercent cfg > 0 \<and> (js_not spread \<or> js_less spread (minSpreadPercent cfg))
        then (Rejected SpreadBelowMinimum, [], st)
      else if isSymbolBlocked smb (blockedSymbols cfg)
        then (Rejected SymbolIsBlocked, [], st)
      else if dir \<noteq> ''LONG'' \<and> dir \<noteq> ''SHORT''
        then (Rejected InvalidSignalDirection, [], st)
      else if \<not> tradingHoursActive env
        then (Rejected OutsideTradingHours, [], st)
      else if hasOpenPosition smb L
        then (Rejected OpenPositionExists, [], st)
      else if int (getOpenPositionsCount L) \<ge> maxOpenPositions cfg
        then (Rejected MaxOpenPositionsReached, [], st)
      else if dailyTrades st \<ge> maxDailyTrades cfg
        then (Rejected MaxDailyTradesReached, [], st)
      else
        (case getUSDTBalance env of
           Inl msg \<Rightarrow> (Rejected (ErrorCheckingBalance msg), [CallGetUSDTBalance], st)
         | Inr bal \<Rightarrow>
             let st1 = st \<lparr> currentBalance := bal \<rparr> in
             if bal \<le> 0 then (Rejected InsufficientFunds, [CallGetUSDTBalance], st1)
             else
               (case getSymbolInfo env smb of
                  Inl msg \<Rightarrow>
                    (Rejected (SymbolNotFoundOrError msg),
                     [CallGetUSDTBalance, CallGetSymbolInfo smb], st1)
                | Inr si \<Rightarrow>
                    if status si \<noteq> ''Open''
                    then (Rejected SymbolNotTrading,
                          [CallGetUSDTBalance, CallGetSymbolInfo smb], st1)
                    else (Valid, [CallGetUSDTBalance, CallGetSymbolInfo smb], st1))))"

text \<open>
  The spec's reading of the pipeline: nine gates, each with the reason it reports when
  it fails (\<open>None\<close> when it passes), listed in the spec's order; the verdict is that of
  the first gate that fails.
\<close>

definition gates ::
  "admission_config \<Rightarrow> gate_env \<Rightarrow> statistics \<Rightarrow> ledger \<Rightarrow> signal \<Rightarrow> rejection option list"
where
  "gates cfg env st L sg =
     [ if minSpreadPercent cfg > 0 \<and>
          (js_not (sig_spread sg) \<or> js_less (sig_spread sg) (minSpreadPercent cfg))
       then Some SpreadBelowMinimum else None,
       if isSymbolBlocked (sig_symbol sg) (blockedSymbols cfg)
       then Some SymbolIsBlocked else None,
       if sig_direction sg \<noteq> ''LONG'' \<and> sig_direction sg \<noteq> ''SHORT''
       then Some InvalidSignalDirection else None,
       if \<not> tradingHoursActive env then Some OutsideTradingHours else None,
       if hasOpenPosition (sig_symbol sg) L then Some OpenPositionExists else None,
       if int (getOpenPositionsCount L) \<ge> maxOpenPositions cfg
       then Some MaxOpenPositionsReached else None,
       if dailyTrades st \<ge> maxDailyTrades cfg then Some MaxDailyTradesReached else None,
       (case getUSDTBalance env of
          Inl msg \<Rightarrow> Some (ErrorCheckingBalance msg)
        | Inr bal \<Rightarrow> if bal \<le> 0 then Some InsufficientFunds else None),
       (case getSymbolInfo env (sig_symbol sg) of
          Inl msg \<Rightarrow> Some (SymbolNotFoundOrError msg)
        | Inr si \<Rightarrow> if status si \<noteq> ''Open'' then Some SymbolNotTrading else None) ]"

fun first_failing :: "rejection option list \<Rightarrow> validation" where
  "first_failing [] = Valid"
| "first_failing (None # gs) = first_failing gs"
| "first_failing (Some r # gs) = Rejected r"


section \<open>Signal parser (\<open>services/telegram.service.js\<close>)\<close>

subsection \<open>Strings and the regular expressions of the parser\<close>

text \<open>
  A JavaScript string is a sequence of UTF-16 code units, and a regular expression
  without the \<open>u\<close> flag matches code unit by code unit: a character outside the basic
  plane, such as each emoji of the alert format, is two code units (a surrogate pair)
  both in the text and in the pattern. None of the parser's expressions has the \<open>u\<close>
  flag. The text of an alert is therefore a list of 16-bit words.
\<close>

type_synonym jsstring = "16 word list"

definition ascii :: "string \<Rightarrow> jsstring" where
  "ascii s = map of_char s"

text \<open>A run of ASCII code units (a captured symbol) as a string of the other modules.\<close>

definition ascii_string :: "jsstring \<Rightarrow> string" where
  "ascii_string s = map (\<lambda>c. char_of (unat c)) s"

text \<open>The classes \<open>\s\<close>, \<open>\d\<close>, \<open>[\d.]\<close> and \<open>[A-Z0-9]\<close>.\<close>

definition is_space :: "16 word \<Rightarrow> bool" where
  "is_space c =
     (c \<in> set [0x09, 0x0A, 0x0B, 0x0C, 0x0D, 0x20, 0xA0, 0x1680, 0x2028, 0x2029,
                0x202F, 0x205F, 0x3000, 0xFEFF] \<or> (0x2000 \<le> c \<and> c \<le> 0x200A))"

definition is_digit :: "16 word \<Rightarrow> bool" where
  "is_digit c = (0x30 \<le> c \<and> c \<le> 0x39)"

definition is_number_char :: "16 word \<Rightarrow> bool" where
  "is_number_char c = (is_digit c \<or> c = 0x2E)"

definition is_symbol_char :: "16 word \<Rightarrow> bool" where
  "is_symbol_char c = ((0x41 \<le> c \<and> c \<le> 0x5A) \<or> is_digit c)"

text \<open>
  Under the \<open>i\<close> flag a pattern character matches a text character when both have the
  same canonical form, the upper case of the code unit. The table covers the ASCII
  letters, the Cyrillic letters \<open>U+0430\<close> to \<open>U+045F\<close> and the historic Cyrillic forms
  \<open>U+1C80\<close> to \<open>U+1C86\<close>, whose upper case is a basic Cyrillic capital; these are all code
  units whose canonical form is a letter of the parser's labels. Any other code unit
  is left as it is, which does not change what the labels match.
\<close>

definition canonicalize :: "16 word \<Rightarrow> 16 word" where
  "canonicalize c =
     (if 0x61 \<le> c \<and> c \<le> 0x7A then c - 0x20
      else if 0x430 \<le> c \<and> c \<le> 0x44F then c - 0x20
      else if 0x450 \<le> c \<and> c \<le> 0x45F then c - 0x50
      else if c = 0x1C80 then 0x412
      else if c = 0x1C81 then 0x414
      else if c = 0x1C82 then 0x41E
      else if c = 0x1C83 then 0x421
      else if c = 0x1C84 \<or> c = 0x1C85 then 0x422
      else if c = 0x1C86 then 0x42A
      else c)"

text \<open>
  A literal at the head of the text, compared through \<open>f\<close> (\<open>id\<close>, or \<open>canonicalize\<close>
  under the \<open>i\<close> flag): the rest of the text after it.
\<close>

fun strip_prefix :: "(16 word \<Rightarrow> 16 word) \<Rightarrow> jsstring \<Rightarrow> jsstring \<Rightarrow> jsstring option" where
  "strip_prefix f [] s = Some s"
| "strip_prefix f (p # ps) [] = None"
| "strip_prefix f (p # ps) (c # cs) = (if f p = f c then strip_prefix f ps cs else None)"

text \<open>\<open>text.match(re)\<close> without the \<open>g\<close> flag: the match at the leftmost position that has one.\<close>

fun first_match :: "(jsstring \<Rightarrow> 'a option) \<Rightarrow> jsstring \<Rightarrow> 'a option" where
  "first_match m [] = m []"
| "first_match m (c # cs) = (case m (c # cs) of Some r \<Rightarrow> Some r | None \<Rightarrow> first_match m cs)"

text \<open>\<open>text.includes(s)\<close>.\<close>

definition js_includes :: "jsstring \<Rightarrow> jsstring \<Rightarrow> bool" where
  "js_includes text s = (first_match (strip_prefix id s) text \<noteq> None)"

text \<open>
  \<open>label\s*([\d.]+)\<close> at a position: the label, any white space, and the longest run of
  digits and dots, which is the capture. The greedy quantifiers never give back: the
  classes \<open>\s\<close> and \<open>[\d.]\<close> share no code unit.
\<close>

definition number_after_label ::
  "(16 word \<Rightarrow> 16 word) \<Rightarrow> jsstring \<Rightarrow> jsstring \<Rightarrow> jsstring option"
where
  "number_after_label f lit s =
     (case strip_prefix f lit s of
        None \<Rightarrow> None
      | Some r \<Rightarrow>
          let cap = takeWhile is_number_char (dropWhile is_space r)
          in if cap = [] then None else Some cap)"

text \<open>
  \<open>parseFloat\<close> on a capture of \<open>[\d.]+\<close>: the longest prefix of the shape digits,
  optional dot, digits, with a digit in it; \<open>NaN\<close> when there is none.
\<close>

definition digits_value :: "jsstring \<Rightarrow> nat" where
  "digits_value s = foldl (\<lambda>a c. 10 * a + (unat c - 48)) 0 s"

definition parseFloat :: "jsstring \<Rightarrow> jsnum" where
  "parseFloat s =
     (let ip = takeWhile is_digit s;
          fp = (case dropWhile is_digit s of
                  [] \<Rightarrow> []
                | c # r \<Rightarrow> if c = 0x2E then takeWhile is_digit r else [])
      in if ip = [] \<and> fp = [] then NaN
         else Num (of_nat (digits_value ip) + of_nat (digits_value fp) / 10 ^ length fp))"

text \<open>
  The four emoji of the format as surrogate pairs: the pointing hands \<open>U+1F449\<close> and
  \<open>U+1F448\<close> around the symbol, the red circle \<open>U+1F534\<close> and the green circle \<open>U+1F7E2\<close>.
\<close>

definition hand_right :: jsstring where "hand_right = [0xD83D, 0xDC49]"
definition hand_left :: jsstring where "hand_left = [0xD83D, 0xDC48]"
definition red_circle :: jsstring where "red_circle = [0xD83D, 0xDD34]"
definition green_circle :: jsstring where "green_circle = [0xD83D, 0xDFE2]"

text \<open>
  The Cyrillic labels of the older vocabulary: \<open>Poslednyaya tsena:\<close> (last price) and
  \<open>Spravedlivaya:\<close> (fair price).
\<close>

definition label_poslednyaya_tsena :: jsstring where
  "label_poslednyaya_tsena =
     [0x41F, 0x43E, 0x441, 0x43B, 0x435, 0x434, 0x43D, 0x44F, 0x44F, 0x20,
      0x446, 0x435, 0x43D, 0x430, 0x3A]"

definition label_spravedlivaya :: jsstring where
  "label_spravedlivaya =
     [0x421, 0x43F, 0x440, 0x430, 0x432, 0x435, 0x434, 0x43B, 0x438, 0x432, 0x430, 0x44F, 0x3A]"


subsection \<open>\<open>_parseEntrySignal\<close>\<close>

text \<open>Step 1: the expression for the symbol between the two hands, \<open>([A-Z0-9]+)\<close>.\<close>

definition symbol_at :: "jsstring \<Rightarrow> jsstring option" where
  "symbol_at s =
     (case strip_prefix id hand_right s of
        None \<Rightarrow> None
      | Some r \<Rightarrow>
          let cap = takeWhile is_symbol_char r
          in if cap \<noteq> [] \<and> strip_prefix id hand_left (dropWhile is_symbol_char r) \<noteq> None
             then Some cap else None)"

definition symbolMatch :: "jsstring \<Rightarrow> jsstring option" where
  "symbolMatch text = first_match symbol_at text"

text \<open>Step 2: \<open>KuCoin\s*-\s*([\d.]+)%\<close>, the optional spread.\<close>

definition spread_at :: "jsstring \<Rightarrow> jsstring option" where
  "spread_at s =
     (case strip_prefix id (ascii ''KuCoin'') s of
        None \<Rightarrow> None
      | Some r \<Rightarrow>
          (case dropWhile is_space r of
             [] \<Rightarrow> None
           | c # r1 \<Rightarrow>
               if c \<noteq> 0x2D then None
               else
                 let r2 = dropWhile is_space r1;
                     cap = takeWhile is_number_char r2
                 in (case dropWhile is_number_char r2 of
                       [] \<Rightarrow> None
                     | d # r3 \<Rightarrow> if cap \<noteq> [] \<and> d = 0x25 then Some cap else None)))"

definition spreadMatch :: "jsstring \<Rightarrow> jsstring option" where
  "spreadMatch text = first_match spread_at text"

text \<open>
  Steps 3 and 4: each price has two label expressions, all with the \<open>i\<close> flag; the second
  is tried when the first has no match (\<open>if (!lastPriceMatch) lastPriceMatch = ...\<close>).
\<close>

definition match_Last :: "jsstring \<Rightarrow> jsstring option" where
  "match_Last text = first_match (number_after_label canonicalize (ascii ''Last:'')) text"

definition match_PoslednyayaTsena :: "jsstring \<Rightarrow> jsstring option" where
  "match_PoslednyayaTsena text =
     first_match (number_after_label canonicalize label_poslednyaya_tsena) text"

definition match_Mark :: "jsstring \<Rightarrow> jsstring option" where
  "match_Mark text = first_match (number_after_label canonicalize (ascii ''Mark:'')) text"

definition match_Spravedlivaya :: "jsstring \<Rightarrow> jsstring option" where
  "match_Spravedlivaya text =
     first_match (number_after_label canonicalize label_spravedlivaya) text"

definition lastPriceMatch :: "jsstring \<Rightarrow> jsstring option" where
  "lastPriceMatch text =
     (let m = match_Last text in if m = None then match_PoslednyayaTsena text else m)"

definition markPriceMatch :: "jsstring \<Rightarrow> jsstring option" where
  "markPriceMatch text =
     (let m = match_Mark text in if m = None then match_Spravedlivaya text else m)"

text \<open>
  Step 5: \<open>text.match(/[...]/)\<close> with the red and the green circle written in the class.
  Without the \<open>u\<close> flag the class holds the four code units of the two surrogate pairs,
  and \<open>emojiMatch[0]\<close> is the first code unit of the text that is one of them.
\<close>

definition emojiMatch :: "jsstring \<Rightarrow> jsstring option" where
  "emojiMatch text =
     (case find (\<lambda>c. c \<in> set (red_circle @ green_circle)) text of
        None \<Rightarrow> None
      | Some c \<Rightarrow> Some [c])"

text \<open>
  \<open>_parseEntrySignal(text)\<close>: \<open>None\<close> is the \<open>null\<close> of a dropped signal. Step 6, the time
  stamp, reads the clock and never drops the signal; the signal's \<open>timestamp\<close> is not
  modelled.
\<close>

definition parseEntrySignal :: "jsstring \<Rightarrow> signal option" where
  "parseEntrySignal text =
     (case symbolMatch text of
        None \<Rightarrow> None
      | Some smb \<Rightarrow>
          let spread = (case spreadMatch text of
                          Some c \<Rightarrow> Some (parseFloat c)
                        | None \<Rightarrow> None)
          in (case lastPriceMatch text of
                None \<Rightarrow> None
              | Some lp \<Rightarrow>
                  (case markPriceMatch text of
                     None \<Rightarrow> None
                   | Some mp \<Rightarrow>
                       (case emojiMatch text of
                          None \<Rightarrow> None
                        | Some emoji \<Rightarrow>
                            if emoji = red_circle then
                              Some \<lparr> sig_type = ''OPEN'', sig_symbol = ascii_string smb,
                                     sig_direction = ''LONG'', sig_lastPrice = parseFloat lp,
                                     sig_fairPrice = parseFloat mp, sig_spread = spread,
                                     sig_emoji = emoji \<rparr>
                            else if emoji = green_circle then
                              Some \<lparr> sig_type = ''OPEN'', sig_symbol = ascii_string smb,
                                     sig_direction = ''SHORT'', sig_lastPrice = parseFloat lp,
                                     sig_fairPrice = parseFloat mp, sig_spread = spread,
                                     sig_emoji = emoji \<rparr>
                            else None))))"

text \<open>
  The spec's reading of steps 3 and 4: an ordered table of label variants per field, of
  which the first that matches gives the value.
\<close>

fun first_variant :: "(jsstring \<Rightarrow> jsstring option) list \<Rightarrow> jsstring \<Rightarrow> jsstring option" where
  "first_variant [] text = None"
| "first_variant (v # vs) text =
     (case v text of Some c \<Rightarrow> Some c | None \<Rightarrow> first_variant vs text)"

definition lastPriceVariants :: "(jsstring \<Rightarrow> jsstring option) list" where
  "lastPriceVariants = [match_Last, match_PoslednyayaTsena]"

definition markPriceVariants :: "(jsstring \<Rightarrow> jsstring option) list" where
  "markPriceVariants = [match_Mark, match_Spravedlivaya]"


section \<open>Concrete inputs\<close>

text \<open>A ledger with one tracked position, and a second order for the same symbol.\<close>

definition pd_a :: position_data where
  "pd_a = \<lparr> pd_symbol = ''XBTUSDTM'', pd_direction = ''LONG'', pd_entryPrice = 100,
            pd_quantity = 5, pd_orderId = ''order-1'', pd_timestamp = Some 1000,
            pd_positionSizeUSDT = Some 500 \<rparr>"

definition pd_b :: position_data where
  "pd_b = \<lparr> pd_symbol = ''XBTUSDTM'', pd_direction = ''SHORT'', pd_entryPrice = 110,
            pd_quantity = 2, pd_orderId = ''order-2'', pd_timestamp = None,
            pd_positionSizeUSDT = None \<rparr>"

definition tracked_a :: position where
  "tracked_a = \<lparr> symbol = ''XBTUSDTM'', direction = ''LONG'', entryPrice = 100, quantity = 5,
                 orderId = ''order-1'', timestamp = 1000, positionSizeUSDT = 500 \<rparr>"

definition ledger_a :: ledger where
  "ledger_a = \<lparr> openPositions = [(''XBTUSDTM'', tracked_a)], closedPositions = [], logged = [] \<rparr>"

text \<open>
  A venue that reports size \<open>0\<close> for the tracked symbol and whose only fill is a buy, the
  opening side of a LONG position.
\<close>

definition venue_a :: venue_positions where
  "venue_a =
     \<lparr> getOpenPositions = (\<lambda>s. Inr [\<lparr> ep_symbol = ''XBTUSDTM'', ep_size = 0 \<rparr>]),
       getTradeHistory =
         (\<lambda>s. Inr [\<lparr> t_symbol = ''XBTUSDTM'', t_side = ''buy'', t_price = 90 \<rparr>]) \<rparr>"

text \<open>A ledger at the end of a day: one open position, one closed position.\<close>

definition ledger_b :: ledger where
  "ledger_b =
     \<lparr> openPositions = [(''XBTUSDTM'', tracked_a)],
       closedPositions =
         [position.extend
            (tracked_a \<lparr> symbol := ''ETHUSDTM'' \<rparr>)
            (closed_position.fields 105 25 5 60 61000)],
       logged = [] \<rparr>"

definition stats_b :: statistics where
  "stats_b =
     \<lparr> totalTrades = 2, winTrades = 0, loseTrades = 0, totalProfit = 0, startBalance = 1000,
       currentBalance = 1000, dailyTrades = 2, signalsIgnored = 3, totalSignals = 7,
       lastResetDate = ''2026-01-01'' \<rparr>"

text \<open>
  An admission set-up outside trading hours with \<open>XBTUSDTM\<close> on the block list, with the
  spread filter off (\<open>cfg_a\<close>) and on (\<open>cfg_b\<close>), and two signals for that symbol, one with
  a spread of \<open>5.06\<close> and one without a spread.
\<close>

definition cfg_a :: admission_config where
  "cfg_a = \<lparr> minSpreadPercent = 0, blockedSymbols = [''XBTUSDTM''], maxOpenPositions = 3,
             maxDailyTrades = 20 \<rparr>"

definition cfg_b :: admission_config where
  "cfg_b = \<lparr> minSpreadPercent = 3, blockedSymbols = [''XBTUSDTM''], maxOpenPositions = 3,
             maxDailyTrades = 20 \<rparr>"

definition env_a :: gate_env where
  "env_a =
     \<lparr> tradingHoursActive = False,
       getUSDTBalance = Inr 1000,
       getSymbolInfo =
         (\<lambda>s. Inr \<lparr> multiplier = Some 1, lotSize = Some 1, minOrderQty = Some 1,
                     maxOrderQty = Some 1000000, status = ''Open'' \<rparr>) \<rparr>"

definition signal_a :: signal where
  "signal_a =
     \<lparr> sig_type = ''OPEN'', sig_symbol = ''XBTUSDTM'', sig_direction = ''LONG'',
       sig_lastPrice = Num 100, sig_fairPrice = Num 95, sig_spread = Some (Num (506 / 100)),
       sig_emoji = red_circle \<rparr>"

definition signal_b :: signal where
  "signal_b = signal_a \<lparr> sig_spread := None \<rparr>"

text \<open>
  The new-format alert of the doc comment of \<open>_parseEntrySignal\<close>: a siren and
  \<open>KuCoin - 5.06%\<close>, the symbol \<open>TAKEUSDTM\<close> between the hands, a green circle and
  \<open>Last: 0.038620\<close>, scales and \<open>Mark: 0.036760\<close>, and a signature line.
\<close>

definition entry_example :: jsstring where
  "entry_example =
     [0xD83D, 0xDEA8] @ ascii '' KuCoin - 5.06%'' @ [0x0A] @
     hand_right @ ascii ''TAKEUSDTM'' @ hand_left @ [0x0A] @
     green_circle @ ascii '' Last: 0.038620'' @ [0x0A] @
     [0x2696, 0xFE0F] @ ascii '' Mark: 0.036760'' @ [0x0A] @
     [0xD83D, 0xDE0E] @ ascii '' @ArturLudit''"


definition no_marker_example :: jsstring where
  "no_marker_example =
     ascii ''KuCoin - 5.06%'' @ [0x0A] @
     hand_right @ ascii ''TAKEUSDTM'' @ hand_left @ [0x0A] @
     ascii ''Last: 0.038620'' @ [0x0A] @ ascii ''Mark: 0.036760''"

text \<open>
  The assumption on the two missing pnl helpers under which a fall-back to the entry
  price gives zero: each returns \<open>0\<close> when entry and exit price are equal.
\<close>

definition zero_at_equal_prices :: "pnl_helpers \<Rightarrow> bool" where
  "zero_at_equal_prices h =
     ((\<forall>e q d. calculatePnL h e e q d = 0) \<and> (\<forall>e d. calculatePnLPercent h e e d = 0))"


section \<open>Verified properties\<close>

subsection \<open>Risk sizing\<close>







subsection \<open>Position ledger\<close>

lemma count_update:
  "distinct (map fst al) \<Longrightarrow> length (filter (\<lambda>e. fst e = k) (AList.update k v al)) = 1"
  by (induction al) (auto simp: filter_empty_conv image_iff)

lemma count_delete: "length (filter (\<lambda>e. fst e = k) (AList.delete k al)) = 0"
  by (induction al) auto

lemma length_update_present:
  "k \<in> fst ` set al \<Longrightarrow> length (AList.update k v al) = length al"
  by (induction al) auto

lemma addOpen_inv: "one_entry_per_symbol L \<Longrightarrow> one_entry_per_symbol (addOpenPosition now pd L)"
  by (simp add: one_entry_per_symbol_def addOpenPosition_def distinct_update)

lemma removeOpen_inv:
  "one_entry_per_symbol L \<Longrightarrow> one_entry_per_symbol (snd (removeOpenPosition s L))"
  by (simp add: one_entry_per_symbol_def removeOpenPosition_def distinct_delete
      split: option.splits)

lemma addClosed_inv:
  "one_entry_per_symbol L \<Longrightarrow> one_entry_per_symbol (addClosedPosition now cp L)"
  by (simp add: one_entry_per_symbol_def addClosedPosition_def)

lemma reset_inv: "one_entry_per_symbol L \<Longrightarrow> one_entry_per_symbol (resetDailyStatistics L)"
  by (simp add: one_entry_per_symbol_def resetDailyStatistics_def)

lemma handleClosed_inv:
  "one_entry_per_symbol L \<Longrightarrow> one_entry_per_symbol (handlePositionClosed h now th s tr L)"
  by (cases th)
     (simp_all add: one_entry_per_symbol_def handlePositionClosed_def Let_def
        addClosedPosition_def removeOpenPosition_def distinct_delete split: option.splits)

lemma has_after_add: "hasOpenPosition (pd_symbol pd) (addOpenPosition now pd L)"
  by (simp add: hasOpenPosition_def addOpenPosition_def dom_update)

lemma get_after_add:
  "getOpenPosition (pd_symbol pd) (addOpenPosition now pd L) =
     Some \<lparr> symbol = pd_symbol pd, direction = pd_direction pd, entryPrice = pd_entryPrice pd,
            quantity = pd_quantity pd, orderId = pd_orderId pd,
            timestamp = js_or_now (pd_timestamp pd) now,
            positionSizeUSDT = js_or (pd_positionSizeUSDT pd) 0 \<rparr>"
  by (simp add: getOpenPosition_def addOpenPosition_def update_conv')

lemma has_iff_get: "hasOpenPosition s L \<longleftrightarrow> getOpenPosition s L \<noteq> None"
  by (simp add: hasOpenPosition_def getOpenPosition_def map_of_eq_None_iff)

lemma not_has_after_remove: "\<not> hasOpenPosition s (snd (removeOpenPosition s L))"
  by (auto simp: hasOpenPosition_def removeOpenPosition_def delete_notin_dom map_of_eq_None_iff
      split: option.splits)

lemma entries_after_remove: "entries_for s (snd (removeOpenPosition s L)) = 0"
proof (cases "map_of (openPositions L) s")
  case None
  then have "s \<notin> fst ` set (openPositions L)" by (simp add: map_of_eq_None_iff)
  then have "filter (\<lambda>e. fst e = s) (openPositions L) = []"
    by (auto simp: filter_empty_conv)
  with None show ?thesis by (simp add: entries_for_def removeOpenPosition_def)
next
  case (Some p)
  then show ?thesis by (simp add: entries_for_def removeOpenPosition_def count_delete)
qed

text \<open>
  Claim C7, as amended. On a ledger with at most one entry per symbol: after
  \<open>addOpenPosition\<close> for \<open>s\<close>, \<open>hasOpenPosition(s)\<close> is true and the ledger holds exactly one
  entry for \<open>s\<close>; a second \<open>addOpenPosition\<close> for the same \<open>s\<close> overwrites the entry (the
  count of entries does not change, the entry is the new position) and logs the same
  info line as any other add, with no warning; after \<open>removeOpenPosition(s)\<close>,
  \<open>hasOpenPosition(s)\<close> is false; \<open>removeOpenPosition(s)\<close> returns the removed position when
  \<open>s\<close> is present, and returns \<open>null\<close> and leaves the ledger unchanged when it is absent;
  adding, removing, closing and the daily reset all keep at most one entry per symbol.
\<close>

theorem C7_one_open_position_per_symbol:
  assumes "one_entry_per_symbol L"
  shows "hasOpenPosition (pd_symbol pd) (addOpenPosition now pd L) \<and>
         entries_for (pd_symbol pd) (addOpenPosition now pd L) = 1 \<and>
         one_entry_per_symbol (addOpenPosition now pd L) \<and>
         (pd_symbol pd2 = pd_symbol pd \<longrightarrow>
            entries_for (pd_symbol pd) (addOpenPosition now2 pd2 (addOpenPosition now pd L)) = 1 \<and>
            getOpenPositionsCount (addOpenPosition now2 pd2 (addOpenPosition now pd L)) =
              getOpenPositionsCount (addOpenPosition now pd L) \<and>
            getOpenPosition (pd_symbol pd) (addOpenPosition now2 pd2 (addOpenPosition now pd L)) =
              Some \<lparr> symbol = pd_symbol pd2, direction = pd_direction pd2,
                     entryPrice = pd_entryPrice pd2, quantity = pd_quantity pd2,
                     orderId = pd_orderId pd2, timestamp = js_or_now (pd_timestamp pd2) now2,
                     positionSizeUSDT = js_or (pd_positionSizeUSDT pd2) 0 \<rparr> \<and>
            logged (addOpenPosition now2 pd2 (addOpenPosition now pd L)) =
              logged (addOpenPosition now pd L) @
                [(LogInfo, ''[POSITION] Added position to monitoring'')]) \<and>
         \<not> hasOpenPosition s (snd (removeOpenPosition s L)) \<and>
         entries_for s (snd (removeOpenPosition s L)) = 0 \<and>
         one_entry_per_symbol (snd (removeOpenPosition s L)) \<and>
         (hasOpenPosition s L \<longrightarrow>
            (\<exists>p. getOpenPosition s L = Some p \<and> fst (removeOpenPosition s L) = Some p)) \<and>
         (\<not> hasOpenPosition s L \<longrightarrow> removeOpenPosition s L = (None, L)) \<and>
         one_entry_per_symbol (addClosedPosition now cp L) \<and>
         one_entry_per_symbol (resetDailyStatistics L) \<and>
         one_entry_per_symbol (handlePositionClosed h now th s tr L)"
proof -
  let ?L1 = "addOpenPosition now pd L"
  have inv1: "one_entry_per_symbol ?L1" using assms by (rule addOpen_inv)
  have a: "entries_for (pd_symbol pd) ?L1 = 1"
    using assms
    by (simp add: entries_for_def addOpenPosition_def one_entry_per_symbol_def count_update)
  have b: "entries_for (pd_symbol pd) (addOpenPosition now2 pd2 ?L1) = 1 \<and>
            getOpenPositionsCount (addOpenPosition now2 pd2 ?L1) = getOpenPositionsCount ?L1 \<and>
            getOpenPosition (pd_symbol pd) (addOpenPosition now2 pd2 ?L1) =
              Some \<lparr> symbol = pd_symbol pd2, direction = pd_direction pd2,
                     entryPrice = pd_entryPrice pd2, quantity = pd_quantity pd2,
                     orderId = pd_orderId pd2, timestamp = js_or_now (pd_timestamp pd2) now2,
                     positionSizeUSDT = js_or (pd_positionSizeUSDT pd2) 0 \<rparr> \<and>
            logged (addOpenPosition now2 pd2 ?L1) =
              logged ?L1 @ [(LogInfo, ''[POSITION] Added position to monitoring'')]"
    if eq: "pd_symbol pd2 = pd_symbol pd"
  proof -
    have "entries_for (pd_symbol pd2) (addOpenPosition now2 pd2 ?L1) = 1"
      using inv1
      by (simp add: entries_for_def addOpenPosition_def [of now2] one_entry_per_symbol_def
          count_update)
    moreover have
      "getOpenPositionsCount (addOpenPosition now2 pd2 ?L1) = getOpenPositionsCount ?L1"
      using has_after_add [of pd now L] eq
      by (simp add: getOpenPositionsCount_def addOpenPosition_def [of now2] hasOpenPosition_def
          length_update_present)
    moreover note get_after_add [of pd2 now2 ?L1]
    moreover have "logged (addOpenPosition now2 pd2 ?L1) =
              logged ?L1 @ [(LogInfo, ''[POSITION] Added position to monitoring'')]"
      by (simp add: addOpenPosition_def [of now2])
    ultimately show ?thesis using eq by simp
  qed
  have d: "\<exists>p. getOpenPosition s L = Some p \<and> fst (removeOpenPosition s L) = Some p"
    if "hasOpenPosition s L"
    using that by (auto simp: has_iff_get getOpenPosition_def removeOpenPosition_def)
  have e: "removeOpenPosition s L = (None, L)" if "\<not> hasOpenPosition s L"
    using that by (auto simp: has_iff_get getOpenPosition_def removeOpenPosition_def)
  show ?thesis
    using has_after_add [of pd now L] a inv1 b not_has_after_remove [of s L]
      entries_after_remove [of s L] removeOpen_inv [OF assms, of s] d e
      addClosed_inv [OF assms, of now cp] reset_inv [OF assms]
      handleClosed_inv [OF assms, of h now th s tr]
    by blast
qed

theorem C7_one_open_position_per_symbol_witness:
  "one_entry_per_symbol new_ledger \<and>
   pd_symbol pd_b = pd_symbol pd_a \<and>
   hasOpenPosition ''XBTUSDTM'' (addOpenPosition 1 pd_a new_ledger) \<and>
   entries_for ''XBTUSDTM'' (addOpenPosition 2 pd_b (addOpenPosition 1 pd_a new_ledger)) = 1 \<and>
   \<not> hasOpenPosition ''XBTUSDTM'' new_ledger \<and>
   removeOpenPosition ''XBTUSDTM'' new_ledger = (None, new_ledger) \<and>
   one_entry_per_symbol ledger_a \<and>
   hasOpenPosition ''XBTUSDTM'' ledger_a \<and>
   fst (removeOpenPosition ''XBTUSDTM'' ledger_a) = Some tracked_a \<and>
   \<not> hasOpenPosition ''XBTUSDTM'' (snd (removeOpenPosition ''XBTUSDTM'' ledger_a))"
proof -
  have inv: "one_entry_per_symbol new_ledger"
    by (simp add: one_entry_per_symbol_def new_ledger_def)
  have eq: "pd_symbol pd_b = pd_symbol pd_a" "pd_symbol pd_a = ''XBTUSDTM''"
    by (simp_all add: pd_a_def pd_b_def)
  have absent: "\<not> hasOpenPosition ''XBTUSDTM'' new_ledger"
    by (simp add: hasOpenPosition_def new_ledger_def)
  have inv_a: "one_entry_per_symbol ledger_a"
    by (simp add: one_entry_per_symbol_def ledger_a_def)
  have present: "hasOpenPosition ''XBTUSDTM'' ledger_a"
    by (simp add: hasOpenPosition_def ledger_a_def)
  have get_a: "getOpenPosition ''XBTUSDTM'' ledger_a = Some tracked_a"
    by (simp add: getOpenPosition_def ledger_a_def)
  from C7_one_open_position_per_symbol [OF inv, of pd_a 1 pd_b 2 "''XBTUSDTM''"] inv eq absent
  have first: "hasOpenPosition ''XBTUSDTM'' (addOpenPosition 1 pd_a new_ledger) \<and>
     entries_for ''XBTUSDTM'' (addOpenPosition 2 pd_b (addOpenPosition 1 pd_a new_ledger)) = 1 \<and>
     removeOpenPosition ''XBTUSDTM'' new_ledger = (None, new_ledger)"
    by simp
  from C7_one_open_position_per_symbol [OF inv_a, of pd_a 1 pd_b 2 "''XBTUSDTM''"] present get_a
  have second: "fst (removeOpenPosition ''XBTUSDTM'' ledger_a) = Some tracked_a \<and>
     \<not> hasOpenPosition ''XBTUSDTM'' (snd (removeOpenPosition ''XBTUSDTM'' ledger_a))"
    by simp
  from first second inv eq absent inv_a present show ?thesis by simp
qed

text \<open>
  The claim as written has the overwrite logged with a warning. The second add for
  \<open>XBTUSDTM\<close> on a ledger that tracks it logs an info line, as the first did, and no line
  at the warning level.
\<close>

theorem C7_overwrite_logs_no_warning_counterexample:
  "hasOpenPosition ''XBTUSDTM'' (addOpenPosition 1 pd_a new_ledger) \<and>
   map fst (logged (addOpenPosition 2 pd_b (addOpenPosition 1 pd_a new_ledger))) =
     [LogInfo, LogInfo] \<and>
   LogWarn \<notin> fst ` set (logged (addOpenPosition 2 pd_b (addOpenPosition 1 pd_a new_ledger)))"
  by (simp add: hasOpenPosition_def addOpenPosition_def new_ledger_def pd_a_def pd_b_def)


subsection \<open>Reconciliation\<close>

lemma find_None_no_close:
  "(\<forall>t \<in> set trades. \<not> is_close_trade s tracked t) \<Longrightarrow>
     find (is_close_trade s tracked) trades = None"
  by (simp add: find_None_iff)

lemma handlePositionClosed_no_fill:
  assumes "find (is_close_trade s tracked) trades = None"
  shows "closedPositions (handlePositionClosed h now (Inr trades) s tracked L) =
           closedPositions L @
             [position.extend tracked
                (closed_position.fields (entryPrice tracked)
                   (calculatePnL h (entryPrice tracked) (entryPrice tracked)
                      (quantity tracked) (direction tracked))
                   (calculatePnLPercent h (entryPrice tracked) (entryPrice tracked)
                      (direction tracked))
                   \<lfloor>of_int (now - timestamp tracked) / (1000 :: rat)\<rfloor> now)]"
  using assms
  by (simp add: handlePositionClosed_def Let_def addClosedPosition_def removeOpenPosition_def
      position.defs closed_position.defs split: option.splits)

lemma checkPosition_closed:
  assumes "getOpenPositions venue s = Inr eps"
    and "find (\<lambda>pos. ep_symbol pos = s) eps = None \<or>
         (\<exists>ep. find (\<lambda>pos. ep_symbol pos = s) eps = Some ep \<and> ep_size ep = 0)"
  shows "checkPosition h now venue (s, tracked) L =
           handlePositionClosed h now (getTradeHistory venue s) s tracked L"
  using assms by (auto simp: checkPosition_def Let_def)

lemma spec_helpers_zero: "zero_at_equal_prices spec_pnl_helpers"
  by (simp add: zero_at_equal_prices_def spec_pnl_helpers_def spec_calculatePnL_def
      spec_calculatePnLPercent_def)

text \<open>
  Claim C8. When the venue's answer for a tracked symbol holds no position for it, or
  one of size zero, and no fill of the trade history is on the closing side of the
  tracked direction for that symbol (sell for LONG, buy for SHORT),
  \<open>handlePositionClosed\<close> appends one closed position to the history, whose exitPrice is
  the tracked entryPrice, with the tracked fields kept; its pnl and pnl percent are what
  the two helpers return at equal entry and exit price, which is zero for every pair of
  helpers that return zero there (as the spec's policy says, and as the direction-signed
  price difference does).
\<close>

theorem C8_no_fill_falls_back_to_entry_price:
  assumes "zero_at_equal_prices h"
    and "getOpenPositions venue s = Inr eps"
    and "find (\<lambda>pos. ep_symbol pos = s) eps = None \<or>
         (\<exists>ep. find (\<lambda>pos. ep_symbol pos = s) eps = Some ep \<and> ep_size ep = 0)"
    and "getTradeHistory venue s = Inr trades"
    and "\<forall>t \<in> set trades. \<not> is_close_trade s tracked t"
  shows "\<exists>cp. closedPositions (checkPosition h now venue (s, tracked) L) =
                closedPositions L @ [cp] \<and>
              closedPositions (handlePositionClosed h now (Inr trades) s tracked L) =
                closedPositions L @ [cp] \<and>
              exitPrice cp = entryPrice tracked \<and> pnl cp = 0 \<and> pnlPercent cp = 0 \<and>
              symbol cp = symbol tracked \<and> direction cp = direction tracked \<and>
              entryPrice cp = entryPrice tracked \<and> quantity cp = quantity tracked \<and>
              closedAt cp = now"
proof -
  have nf: "find (is_close_trade s tracked) trades = None"
    using assms(5) by (rule find_None_no_close)
  have z: "calculatePnL h (entryPrice tracked) (entryPrice tracked) (quantity tracked)
             (direction tracked) = 0"
     "calculatePnLPercent h (entryPrice tracked) (entryPrice tracked) (direction tracked) = 0"
    using assms(1) by (simp_all add: zero_at_equal_prices_def)
  have "checkPosition h now venue (s, tracked) L =
          handlePositionClosed h now (Inr trades) s tracked L"
    using checkPosition_closed [OF assms(2,3)] assms(4) by simp
  then show ?thesis
    using handlePositionClosed_no_fill [OF nf, of h now L] z
    by (simp add: position.defs closed_position.defs)
qed

theorem C8_no_fill_falls_back_to_entry_price_witness:
  "zero_at_equal_prices spec_pnl_helpers \<and>
   getOpenPositions venue_a ''XBTUSDTM'' = Inr [\<lparr> ep_symbol = ''XBTUSDTM'', ep_size = 0 \<rparr>] \<and>
   getTradeHistory venue_a ''XBTUSDTM'' =
     Inr [\<lparr> t_symbol = ''XBTUSDTM'', t_side = ''buy'', t_price = 90 \<rparr>] \<and>
   \<not> is_close_trade ''XBTUSDTM'' tracked_a
       \<lparr> t_symbol = ''XBTUSDTM'', t_side = ''buy'', t_price = 90 \<rparr> \<and>
   map exitPrice (closedPositions
      (checkPosition spec_pnl_helpers 61000 venue_a (''XBTUSDTM'', tracked_a) ledger_a)) = [100] \<and>
   map pnl (closedPositions
      (checkPosition spec_pnl_helpers 61000 venue_a (''XBTUSDTM'', tracked_a) ledger_a)) = [0] \<and>
   map pnlPercent (closedPositions
      (checkPosition spec_pnl_helpers 61000 venue_a (''XBTUSDTM'', tracked_a) ledger_a)) = [0]"
proof -
  have g: "getOpenPositions venue_a ''XBTUSDTM'' =
             Inr [\<lparr> ep_symbol = ''XBTUSDTM'', ep_size = 0 \<rparr>]"
    by (simp add: venue_a_def)
  have f: "find (\<lambda>pos. ep_symbol pos = ''XBTUSDTM'')
              [\<lparr> ep_symbol = ''XBTUSDTM'', ep_size = 0 \<rparr>] = None \<or>
         (\<exists>ep. find (\<lambda>pos. ep_symbol pos = ''XBTUSDTM'')
              [\<lparr> ep_symbol = ''XBTUSDTM'', ep_size = 0 \<rparr>] = Some ep \<and> ep_size ep = 0)"
    by simp
  have t: "getTradeHistory venue_a ''XBTUSDTM'' =
     Inr [\<lparr> t_symbol = ''XBTUSDTM'', t_side = ''buy'', t_price = 90 \<rparr>]"
    by (simp add: venue_a_def)
  have n: "\<not> is_close_trade ''XBTUSDTM'' tracked_a
              \<lparr> t_symbol = ''XBTUSDTM'', t_side = ''buy'', t_price = 90 \<rparr>"
    by (simp add: is_close_trade_def tracked_a_def)
  then have n': "\<forall>t \<in> set [\<lparr> t_symbol = ''XBTUSDTM'', t_side = ''buy'', t_price = 90 \<rparr>].
                   \<not> is_close_trade ''XBTUSDTM'' tracked_a t"
    by simp
  from C8_no_fill_falls_back_to_entry_price [OF spec_helpers_zero g f t n', of 61000 ledger_a]
  obtain cp where
    "closedPositions
       (checkPosition spec_pnl_helpers 61000 venue_a (''XBTUSDTM'', tracked_a) ledger_a) =
     closedPositions ledger_a @ [cp]"
    and "exitPrice cp = entryPrice tracked_a" "pnl cp = 0" "pnlPercent cp = 0"
    by blast
  then show ?thesis using spec_helpers_zero g t n
    by (simp add: ledger_a_def tracked_a_def)
qed


subsection \<open>Daily reset\<close>

lemma reset_frame:
  "closedPositions (resetDailyStatistics L) = [] \<and>
   openPositions (resetDailyStatistics L) = openPositions L"
  by (simp add: resetDailyStatistics_def)

text \<open>
  Claim C9. The daily reset, which \<open>sendDailyReport\<close> runs when the date has changed
  since the last reset, empties the closed-position history, sets the day counters
  \<open>dailyTrades\<close> and \<open>signalsIgnored\<close> to zero and leaves the map of open positions exactly
  as it was; \<open>resetDailyStatistics\<close> on its own empties the history and leaves the map
  as it was, for every ledger.
\<close>

theorem C9_daily_reset_keeps_open_positions:
  assumes "currentDate \<noteq> lastResetDate st"
  shows "closedPositions (snd (sendDailyReport currentDate (st, L))) = [] \<and>
         dailyTrades (fst (sendDailyReport currentDate (st, L))) = 0 \<and>
         signalsIgnored (fst (sendDailyReport currentDate (st, L))) = 0 \<and>
         lastResetDate (fst (sendDailyReport currentDate (st, L))) = currentDate \<and>
         openPositions (snd (sendDailyReport currentDate (st, L))) = openPositions L \<and>
         closedPositions (resetDailyStatistics L) = [] \<and>
         openPositions (resetDailyStatistics L) = openPositions L"
  using assms by (simp add: sendDailyReport_def reset_frame)

theorem C9_daily_reset_keeps_open_positions_witness:
  "''2026-01-02'' \<noteq> lastResetDate stats_b \<and>
   closedPositions ledger_b \<noteq> [] \<and>
   dailyTrades stats_b = 2 \<and> signalsIgnored stats_b = 3 \<and>
   closedPositions (snd (sendDailyReport ''2026-01-02'' (stats_b, ledger_b))) = [] \<and>
   dailyTrades (fst (sendDailyReport ''2026-01-02'' (stats_b, ledger_b))) = 0 \<and>
   signalsIgnored (fst (sendDailyReport ''2026-01-02'' (stats_b, ledger_b))) = 0 \<and>
   openPositions (snd (sendDailyReport ''2026-01-02'' (stats_b, ledger_b))) =
     [(''XBTUSDTM'', tracked_a)]"
proof -
  have d: "''2026-01-02'' \<noteq> lastResetDate stats_b" by (simp add: stats_b_def)
  have pre: "closedPositions ledger_b \<noteq> []" "dailyTrades stats_b = 2"
    "signalsIgnored stats_b = 3" "openPositions ledger_b = [(''XBTUSDTM'', tracked_a)]"
    by (simp_all add: ledger_b_def stats_b_def)
  from C9_daily_reset_keeps_open_positions [OF d, of ledger_b] d pre
  show ?thesis by simp
qed


subsection \<open>Admission pipeline\<close>

lemma validate_first_failing:
  "fst (validateSignal cfg env st L sg) = first_failing (gates cfg env st L sg)"
  by (simp add: validateSignal_def gates_def Let_def split: sum.splits)

lemma validate_local_no_calls:
  assumes "i < 7" and "gates cfg env st L sg ! i \<noteq> None"
  shows "fst (snd (validateSignal cfg env st L sg)) = []"
proof -
  from assms(1) have "i = 0 \<or> i = 1 \<or> i = 2 \<or> i = 3 \<or> i = 4 \<or> i = 5 \<or> i = 6" by arith
  with assms(2) show ?thesis
    by (auto simp: validateSignal_def gates_def Let_def split: if_splits)
qed

text \<open>
  Claim C3. \<open>validateSignal\<close> has nine gates in the spec's order (spread minimum, block
  list, direction, trading hours, open position for the symbol, max open positions, max
  daily trades, positive balance, symbol tradable), and its verdict is the reason of
  the first gate that fails, or valid when none does. When one of the first seven
  gates fails, no network call is made. A signal that fails both the block-list gate
  and the trading-hours gate is never reported as outside trading hours, and is
  reported as blocked when it passes the spread gate before them.
\<close>

theorem C3_gates_in_order:
  "length (gates cfg env st L sg) = 9 \<and>
   fst (validateSignal cfg env st L sg) = first_failing (gates cfg env st L sg) \<and>
   (\<forall>i < 7. gates cfg env st L sg ! i \<noteq> None \<longrightarrow>
      fst (snd (validateSignal cfg env st L sg)) = []) \<and>
   (isSymbolBlocked (sig_symbol sg) (blockedSymbols cfg) \<and> \<not> tradingHoursActive env \<longrightarrow>
      fst (validateSignal cfg env st L sg) \<noteq> Rejected OutsideTradingHours \<and>
      (gates cfg env st L sg ! 0 = None \<longrightarrow>
         fst (validateSignal cfg env st L sg) = Rejected SymbolIsBlocked))"
proof -
  have a: "length (gates cfg env st L sg) = 9" by (simp add: gates_def)
  have b: "fst (validateSignal cfg env st L sg) \<noteq> Rejected OutsideTradingHours \<and>
      (gates cfg env st L sg ! 0 = None \<longrightarrow>
         fst (validateSignal cfg env st L sg) = Rejected SymbolIsBlocked)"
    if "isSymbolBlocked (sig_symbol sg) (blockedSymbols cfg) \<and> \<not> tradingHoursActive env"
    using that by (simp add: validateSignal_def gates_def Let_def)
  from a b validate_first_failing validate_local_no_calls show ?thesis by blast
qed

theorem C3_gates_in_order_witness:
  "isSymbolBlocked (sig_symbol signal_a) (blockedSymbols cfg_a) \<and>
   \<not> tradingHoursActive env_a \<and>
   gates cfg_a env_a stats_b ledger_a signal_a ! 0 = None \<and>
   gates cfg_a env_a stats_b ledger_a signal_a ! 1 = Some SymbolIsBlocked \<and>
   gates cfg_a env_a stats_b ledger_a signal_a ! 3 = Some OutsideTradingHours \<and>
   fst (validateSignal cfg_a env_a stats_b ledger_a signal_a) = Rejected SymbolIsBlocked \<and>
   fst (snd (validateSignal cfg_a env_a stats_b ledger_a signal_a)) = []"
proof -
  have h: "isSymbolBlocked (sig_symbol signal_a) (blockedSymbols cfg_a)"
    "\<not> tradingHoursActive env_a"
    by (simp_all add: isSymbolBlocked_def signal_a_def cfg_a_def env_a_def)
  have g: "gates cfg_a env_a stats_b ledger_a signal_a ! 0 = None"
    "gates cfg_a env_a stats_b ledger_a signal_a ! 1 = Some SymbolIsBlocked"
    "gates cfg_a env_a stats_b ledger_a signal_a ! 3 = Some OutsideTradingHours"
    by (simp_all add: gates_def isSymbolBlocked_def signal_a_def cfg_a_def env_a_def)
  note c3 = C3_gates_in_order [of cfg_a env_a stats_b ledger_a signal_a]
  from c3 h g(1)
  have v: "fst (validateSignal cfg_a env_a stats_b ledger_a signal_a) = Rejected SymbolIsBlocked"
    by blast
  from c3 have "\<forall>i < 7. gates cfg_a env_a stats_b ledger_a signal_a ! i \<noteq> None \<longrightarrow>
      fst (snd (validateSignal cfg_a env_a stats_b ledger_a signal_a)) = []"
    by blast
  then have "(1::nat) < 7 \<longrightarrow> gates cfg_a env_a stats_b ledger_a signal_a ! 1 \<noteq> None \<longrightarrow>
      fst (snd (validateSignal cfg_a env_a stats_b ledger_a signal_a)) = []"
    by blast
  with g(2) have c: "fst (snd (validateSignal cfg_a env_a stats_b ledger_a signal_a)) = []"
    by simp
  from h g v c show ?thesis by simp
qed

text \<open>
  Claim C10. With the minimum-spread filter enabled (\<open>minSpreadPercent > 0\<close>),
  \<open>validateSignal\<close> rejects with the spread reason, before any other gate and without a
  network call, every signal whose spread is absent (\<open>null\<close>), zero or \<open>NaN\<close>.
\<close>

theorem C10_missing_spread_is_rejected:
  assumes "minSpreadPercent cfg > 0"
    and "sig_spread sg = None \<or> sig_spread sg = Some (Num 0) \<or> sig_spread sg = Some NaN"
  shows "validateSignal cfg env st L sg = (Rejected SpreadBelowMinimum, [], st)"
  using assms by (auto simp: validateSignal_def Let_def)

theorem C10_missing_spread_is_rejected_witness:
  "minSpreadPercent cfg_b > 0 \<and> sig_spread signal_b = None \<and>
   validateSignal cfg_b env_a stats_b ledger_a signal_b =
     (Rejected SpreadBelowMinimum, [], stats_b) \<and>
   fst (validateSignal cfg_a env_a stats_b ledger_a signal_b) = Rejected SymbolIsBlocked"
proof -
  have m: "minSpreadPercent cfg_b > 0" by (simp add: cfg_b_def)
  have n: "sig_spread signal_b = None" by (simp add: signal_b_def)
  have off: "fst (validateSignal cfg_a env_a stats_b ledger_a signal_b) = Rejected SymbolIsBlocked"
    by (simp add: validateSignal_def Let_def cfg_a_def signal_b_def signal_a_def
        isSymbolBlocked_def)
  from n have n': "sig_spread signal_b = None \<or> sig_spread signal_b = Some (Num 0) \<or>
      sig_spread signal_b = Some NaN"
    by simp
  from C10_missing_spread_is_rejected [OF m n', of env_a stats_b ledger_a] m n off
  show ?thesis by simp
qed

subsection \<open>Signal parser\<close>

text \<open>
  The match of step 5 is a single code unit, while each circle is a surrogate pair:
  neither comparison of the direction step can succeed, and every text ends in the
  \<open>unknown emoji\<close> branch or earlier.
\<close>

lemma emojiMatch_single: "emojiMatch text = Some e \<Longrightarrow> length e = 1"
  by (auto simp: emojiMatch_def split: option.splits)

lemma emojiMatch_no_circle:
  "emojiMatch text = Some e \<Longrightarrow> e \<noteq> red_circle \<and> e \<noteq> green_circle"
  using emojiMatch_single [of "text" e] by (auto simp: red_circle_def green_circle_def)

lemma parseEntrySignal_None: "parseEntrySignal text = None"
  using emojiMatch_no_circle [of "text"]
  by (auto simp: parseEntrySignal_def Let_def split: option.splits)

lemma lastPriceMatch_None:
  "(\<forall>v \<in> set lastPriceVariants. v text = None) \<Longrightarrow> lastPriceMatch text = None"
  by (simp add: lastPriceVariants_def lastPriceMatch_def)

lemma markPriceMatch_None:
  "(\<forall>v \<in> set markPriceVariants. v text = None) \<Longrightarrow> markPriceMatch text = None"
  by (simp add: markPriceVariants_def markPriceMatch_def)

text \<open>
  Claim C4: the code at the well-formed alert of its own doc comment. Every field is
  found (symbol \<open>TAKEUSDTM\<close>, last price \<open>0.038620\<close>, mark price \<open>0.036760\<close>) and the text
  holds the green circle, for which the doc comment and the mapping in the code give
  \<open>SHORT\<close>; the match of the marker expression is the lone high surrogate \<open>D83D\<close> of the
  siren at the head of the text, which is neither circle, and the signal is dropped.
\<close>

theorem C4_documented_entry_is_dropped:
  "symbolMatch entry_example = Some (ascii ''TAKEUSDTM'') \<and>
   lastPriceMatch entry_example = Some (ascii ''0.038620'') \<and>
   markPriceMatch entry_example = Some (ascii ''0.036760'') \<and>
   js_includes entry_example green_circle \<and>
   \<not> js_includes entry_example red_circle \<and>
   emojiMatch entry_example = Some [0xD83D] \<and>
   parseEntrySignal entry_example = None"
  by code_simp

text \<open>
  Claim C5. \<open>_parseEntrySignal\<close> returns \<open>null\<close> whenever a required field is missing: no
  symbol between the hands, no match of any last-price label, no match of any
  fair-price label, or neither colour marker in the text.
\<close>

theorem C5_missing_field_drops_signal:
  assumes "symbolMatch text = None \<or>
           (\<forall>v \<in> set lastPriceVariants. v text = None) \<or>
           (\<forall>v \<in> set markPriceVariants. v text = None) \<or>
           (\<not> js_includes text red_circle \<and> \<not> js_includes text green_circle)"
  shows "parseEntrySignal text = None"
  using assms
proof (elim disjE)
  assume "symbolMatch text = None"
  then show ?thesis by (simp add: parseEntrySignal_def)
next
  assume "\<forall>v \<in> set lastPriceVariants. v text = None"
  then have "lastPriceMatch text = None" by (rule lastPriceMatch_None)
  then show ?thesis by (simp add: parseEntrySignal_def Let_def split: option.splits)
next
  assume "\<forall>v \<in> set markPriceVariants. v text = None"
  then have "markPriceMatch text = None" by (rule markPriceMatch_None)
  then show ?thesis by (simp add: parseEntrySignal_def Let_def split: option.splits)
next
  assume "\<not> js_includes text red_circle \<and> \<not> js_includes text green_circle"
  show ?thesis
    using emojiMatch_no_circle [of "text"]
    by (auto simp: parseEntrySignal_def Let_def split: option.splits)
qed

theorem C5_missing_field_drops_signal_witness:
  "symbolMatch no_marker_example = Some (ascii ''TAKEUSDTM'') \<and>
   lastPriceMatch no_marker_example = Some (ascii ''0.038620'') \<and>
   markPriceMatch no_marker_example = Some (ascii ''0.036760'') \<and>
   \<not> js_includes no_marker_example red_circle \<and>
   \<not> js_includes no_marker_example green_circle \<and>
   parseEntrySignal no_marker_example = None"
proof -
  have f: "symbolMatch no_marker_example = Some (ascii ''TAKEUSDTM'')"
    "lastPriceMatch no_marker_example = Some (ascii ''0.038620'')"
    "markPriceMatch no_marker_example = Some (ascii ''0.036760'')"
    by code_simp+
  have n: "\<not> js_includes no_marker_example red_circle \<and>
           \<not> js_includes no_marker_example green_circle"
    by code_simp
  then have "symbolMatch no_marker_example = None \<or>
           (\<forall>v \<in> set lastPriceVariants. v no_marker_example = None) \<or>
           (\<forall>v \<in> set markPriceVariants. v no_marker_example = None) \<or>
           (\<not> js_includes no_marker_example red_circle \<and>
            \<not> js_includes no_marker_example green_circle)"
    by blast
  from C5_missing_field_drops_signal [OF this] f n show ?thesis by simp
qed

lemma first_variant_first:
  "v text = Some c \<Longrightarrow> first_variant (v # vs) text = Some c"
  by simp

lemma first_variant_skip:
  "v text = None \<Longrightarrow> first_variant (v # vs) text = first_variant vs text"
  by simp



end
